theory Spec2Isabelle
  imports Main "HOL-Library.Sublist"
begin

section \<open>Python values used by \<open>code_block.py\<close>\<close>

text \<open>
  Exceptions are values. \<open>Severe opt needle\<close> is the system message built by
  \<open>state_machine.reporter.severe\<close> at lines 169, 195, 217 and 227 of
  \<open>code_block.py\<close>: \<open>opt\<close> is the option name quoted in the message text and
  \<open>needle\<close> the option's value. \<open>RuntimeError\<close> is what Python 3.7 and later
  (PEP 479) raise when \<open>StopIteration\<close> escapes from the body of a generator.
\<close>

datatype exn =
    NameError | ValueError | IOError | UnicodeError | TypeError | RuntimeError
  | Severe string string

section \<open>\<open>DocutilsInterface.join\<close> (lines 100-110)\<close>

text \<open>
  A token is a pair \<open>(ttype, value)\<close>. Token types are kept abstract (\<open>'t\<close>); the
  source compares them with \<open>is\<close>, and pygments token types are unique objects, so
  identity is equality of \<open>'t\<close>.

  \<open>join_loop (lasttype, lastval) tokens\<close> is the \<open>for\<close> loop of lines 104-109
  followed by the final \<open>yield\<close> of line 110; its result is the list of the
  tokens yielded.
\<close>

fun join_loop :: "'t \<times> string \<Rightarrow> ('t \<times> string) list \<Rightarrow> ('t \<times> string) list" where
  "join_loop (lasttype, lastval) [] = [(lasttype, lastval)]"
| "join_loop (lasttype, lastval) ((ttype, v) # tokens) =
     (if ttype = lasttype then join_loop (lasttype, lastval @ v) tokens
      else (lasttype, lastval) # join_loop (ttype, v) tokens)"

text \<open>
  Line 103, \<open>(lasttype, lastval) = next(tokens)\<close>, runs inside the generator: on
  an empty stream \<open>next\<close> raises \<open>StopIteration\<close>, which leaves the generator
  body as \<open>RuntimeError\<close>.
\<close>

definition join :: "('t \<times> string) list \<Rightarrow> exn + ('t \<times> string) list" where
  "join tokens =
     (case tokens of
        [] \<Rightarrow> Inl RuntimeError
      | first # rest \<Rightarrow> Inr (join_loop first rest))"

section \<open>Python string operations\<close>

text \<open>
  A Python \<open>str\<close> is modelled as a \<open>string\<close>; a character stands for the code
  point of the same number, so the model covers text whose code points are below
  256. Indices and counts are \<open>int\<close>, as in Python.
\<close>

text \<open>\<open>s.find(sub)\<close>: the lowest index at which \<open>sub\<close> occurs in \<open>s\<close>, or \<open>-1\<close>.\<close>

fun str_find :: "string \<Rightarrow> string \<Rightarrow> int" where
  "str_find [] sub = (if sub = [] then 0 else - 1)"
| "str_find (c # cs) sub =
     (if prefix sub (c # cs) then 0
      else (let i = str_find cs sub in if i < 0 then - 1 else i + 1))"

text \<open>
  Slices. \<open>slice_from s i\<close> is \<open>s[i:]\<close>, \<open>slice_upto s j\<close> is \<open>s[:j]\<close> and
  \<open>slice_down s i\<close> is \<open>s[i:0:-1]\<close>, the characters at indices
  \<open>i, i - 1, ..., 1\<close>. A negative bound counts from the end and every bound is
  clamped to the string, as Python does.
\<close>

definition slice_from :: "string \<Rightarrow> int \<Rightarrow> string" where
  "slice_from s i = (if i < 0 then drop (nat (int (length s) + i)) s else drop (nat i) s)"

definition slice_upto :: "string \<Rightarrow> int \<Rightarrow> string" where
  "slice_upto s j = (if j < 0 then take (nat (int (length s) + j)) s else take (nat j) s)"

definition slice_down :: "string \<Rightarrow> int \<Rightarrow> string" where
  "slice_down s i =
     (let n = int (length s);
          start = (if i < 0 then max (i + n) (- 1) else min i (n - 1))
      in rev (drop 1 (take (nat (start + 1)) s)))"

text \<open>
  \<open>s.splitlines()\<close>: the lines of \<open>s\<close> without their line boundaries. The
  boundaries below code point 256 are \<open>\n\<close>, \<open>\r\<close>, \<open>\r\n\<close>, \<open>\v\<close>, \<open>\f\<close>,
  \<open>\x1c\<close>, \<open>\x1d\<close>, \<open>\x1e\<close> and \<open>\x85\<close>. No empty last line is produced after
  a final boundary.
\<close>

definition is_linebreak :: "char \<Rightarrow> bool" where
  "is_linebreak c \<longleftrightarrow>
     c \<in> set [CHR 0x0A, CHR 0x0B, CHR 0x0C, CHR 0x0D, CHR 0x1C, CHR 0x1D, CHR 0x1E, CHR 0x85]"

fun splitlines_from :: "string \<Rightarrow> string \<Rightarrow> string list" where
  "splitlines_from cur [] = (if cur = [] then [] else [cur])"
| "splitlines_from cur [c] = (if is_linebreak c then [cur] else [cur @ [c]])"
| "splitlines_from cur (c # d # cs) =
     (if c = CHR 0x0D \<and> d = CHR 0x0A then cur # splitlines_from [] cs
      else if is_linebreak c then cur # splitlines_from [] (d # cs)
      else splitlines_from (cur @ [c]) (d # cs))"

definition splitlines :: "string \<Rightarrow> string list" where
  "splitlines s = splitlines_from [] s"

text \<open>\<open>s.count("\n")\<close> and \<open>s.split("\n")\<close>.\<close>

definition count_nl :: "string \<Rightarrow> int" where
  "count_nl s = int (length (filter (\<lambda>c. c = CHR ''\<newline>'') s))"

fun split_nl_from :: "string \<Rightarrow> string \<Rightarrow> string list" where
  "split_nl_from cur [] = [cur]"
| "split_nl_from cur (c # cs) =
     (if c = CHR ''\<newline>'' then cur # split_nl_from [] cs
      else split_nl_from (cur @ [c]) cs)"

definition split_nl :: "string \<Rightarrow> string list" where
  "split_nl s = split_nl_from [] s"

text \<open>\<open>s.replace('\t', ' ' * tabw)\<close>; \<open>' ' * tabw\<close> is empty for \<open>tabw \<le> 0\<close>.\<close>

definition replace_tabs :: "string \<Rightarrow> int \<Rightarrow> string" where
  "replace_tabs s tabw =
     concat (map (\<lambda>c. if c = CHR 0x09 then replicate (nat tabw) CHR '' '' else [c]) s)"

text \<open>\<open>s.rstrip()\<close> removes the trailing whitespace (code points below 256).\<close>

definition isspace :: "char \<Rightarrow> bool" where
  "isspace c \<longleftrightarrow>
     c \<in> set [CHR 0x09, CHR 0x0A, CHR 0x0B, CHR 0x0C, CHR 0x0D, CHR 0x1C, CHR 0x1D,
              CHR 0x1E, CHR 0x1F, CHR 0x20, CHR 0x85, CHR 0xA0]"

definition rstrip :: "string \<Rightarrow> string" where
  "rstrip s = rev (dropWhile isspace (rev s))"

text \<open>\<open>s.lower()\<close> on the ASCII letters.\<close>

definition lower :: "string \<Rightarrow> string" where
  "lower s =
     map (\<lambda>c. let n = (of_char c :: nat) in if 65 \<le> n \<and> n \<le> 90 then char_of (n + 32) else c) s"

text \<open>\<open>str(n)\<close> for an integer, and \<open>"%<w>d" % n\<close>, which pads it with blanks on the left.\<close>

function digits :: "nat \<Rightarrow> string" where
  "digits n =
     (if n < 10 then [char_of (48 + n)]
      else digits (n div 10) @ [char_of (48 + n mod 10)])"
  by pat_completeness auto
termination
  by (relation "measure id") auto

definition str_int :: "int \<Rightarrow> string" where
  "str_int n = (if n < 0 then CHR ''-'' # digits (nat (- n)) else digits (nat n))"

definition percent_d :: "nat \<Rightarrow> int \<Rightarrow> string" where
  "percent_d w n = replicate (w - length (str_int n)) CHR '' '' @ str_int n"

section \<open>The directive's options\<close>

text \<open>
  The \<open>options\<close> dictionary of \<open>code_block_directive\<close>, after the conversion
  functions of lines 385-429 have run: a field is \<open>None\<close> when the key is absent.
  \<open>linenos\<close> is only tested for presence. \<open>tab_width\<close> holds the value of
  \<open>int(options['tab-width'])\<close> of line 241, \<open>Inl ValueError\<close> when \<open>int\<close>
  rejects the string. The options that are only handed on to the lexer are not
  listed; the lexer receives the whole record.
\<close>

record options =
  include_path :: "string option"
  encoding :: "string option"
  start_at :: "string option"
  start_after :: "string option"
  end_at :: "string option"
  end_before :: "string option"
  linenos :: bool
  linenos_offset :: "int option"
  tab_width :: "(exn + int) option"
  tabsize :: "int option"
  hl_lines :: "int list option"
  emphasize_lines :: "int list option"

section \<open>Extraction of the included text (lines 153-232)\<close>

text \<open>
  The working state is the pair \<open>(content, line_offset)\<close>. Each anchor option
  is one step; a step whose option is absent or empty (\<open>if after_text:\<close>) leaves
  the state as it is.
\<close>

type_synonym span = "string \<times> int"

text \<open>Lines 176-184: the loop over \<open>content[after_index:0:-1]\<close>.\<close>

fun start_at_walk :: "string \<Rightarrow> int \<Rightarrow> int" where
  "start_at_walk [] after_index = after_index"
| "start_at_walk (char # rest) after_index =
     (if char = CHR ''\<newline>'' \<or> char = CHR 0x0D then after_index
      else start_at_walk rest (after_index - 1))"

text \<open>
  Lines 164-188. Line 187 narrows \<open>content\<close> first; line 188 then takes
  \<open>content[:after_index]\<close> of the narrowed text.
\<close>

definition apply_start_at :: "options \<Rightarrow> span \<Rightarrow> exn + span" where
  "apply_start_at opts st =
     (case st of (content, line_offset) \<Rightarrow>
      (case start_at opts of
         None \<Rightarrow> Inr (content, line_offset)
       | Some after_text \<Rightarrow>
           if after_text = [] then Inr (content, line_offset)
           else
             (let after_index = str_find content after_text in
              if after_index < 0 then Inl (Severe ''start-at'' after_text)
              else
                (let after_index = start_at_walk (slice_down content after_index) after_index;
                     content = slice_from content after_index;
                     line_offset = int (length (splitlines (slice_upto content after_index))) - 1
                 in Inr (content, line_offset)))))"

text \<open>Lines 203-206: the loop over \<open>content[after_index:]\<close>.\<close>

fun start_after_walk :: "string \<Rightarrow> int \<Rightarrow> int" where
  "start_after_walk [] after_index = after_index"
| "start_after_walk (char # rest) after_index =
     (if char = CHR ''\<newline>'' then after_index
      else start_after_walk rest (after_index + 1))"

text \<open>Lines 190-209.\<close>

definition apply_start_after :: "options \<Rightarrow> span \<Rightarrow> exn + span" where
  "apply_start_after opts st =
     (case st of (content, line_offset) \<Rightarrow>
      (case start_after opts of
         None \<Rightarrow> Inr (content, line_offset)
       | Some after_text \<Rightarrow>
           if after_text = [] then Inr (content, line_offset)
           else
             (let after_index = str_find content after_text in
              if after_index < 0 then Inl (Severe ''start-after'' after_text)
              else
                (let after_index = after_index + int (length after_text);
                     after_index = start_after_walk (slice_from content after_index) after_index;
                     line_offset = int (length (splitlines (slice_upto content after_index)));
                     content = slice_from content after_index
                 in Inr (content, line_offset)))))"

text \<open>Lines 212-221.\<close>

definition apply_end_at :: "options \<Rightarrow> span \<Rightarrow> exn + span" where
  "apply_end_at opts st =
     (case st of (content, line_offset) \<Rightarrow>
      (case end_at opts of
         None \<Rightarrow> Inr (content, line_offset)
       | Some before_text \<Rightarrow>
           if before_text = [] then Inr (content, line_offset)
           else
             (let before_index = str_find content before_text in
              if before_index < 0 then Inl (Severe ''end-at'' before_text)
              else Inr (slice_upto content (before_index + int (length before_text)),
                        line_offset))))"

text \<open>Lines 223-232.\<close>

definition apply_end_before :: "options \<Rightarrow> span \<Rightarrow> exn + span" where
  "apply_end_before opts st =
     (case st of (content, line_offset) \<Rightarrow>
      (case end_before opts of
         None \<Rightarrow> Inr (content, line_offset)
       | Some before_text \<Rightarrow>
           if before_text = [] then Inr (content, line_offset)
           else
             (let before_index = str_find content before_text in
              if before_index < 0 then Inl (Severe ''end-before'' before_text)
              else Inr (slice_upto content before_index, line_offset))))"

text \<open>Sequencing of steps that may raise.\<close>

definition and_then :: "exn + 'a \<Rightarrow> ('a \<Rightarrow> exn + 'b) \<Rightarrow> exn + 'b" where
  "and_then r f = (case r of Inl e \<Rightarrow> Inl e | Inr x \<Rightarrow> f x)"

text \<open>
  Lines 153-232: \<open>line_offset = 0\<close>, then the four steps in the order of the
  source, all under the guard \<open>if content:\<close> of line 154.
\<close>

definition extract_span :: "options \<Rightarrow> string \<Rightarrow> exn + span" where
  "extract_span opts content =
     (if content \<noteq> [] then
        and_then (and_then (and_then (apply_start_at opts (content, 0))
          (apply_start_after opts)) (apply_end_at opts)) (apply_end_before opts)
      else Inr (content, 0))"

section \<open>\<open>DocutilsInterface.lex\<close> and \<open>DocutilsInterface.__iter__\<close> (lines 87-98, 112-123)\<close>

text \<open>
  The three names that the guarded import of lines 37-42 binds. When the import
  fails, \<open>except ImportError: pass\<close> leaves the names of the failing line and
  of the lines after it unbound (\<open>None\<close>), and reading an unbound global raises
  \<open>NameError\<close>. \<open>'l\<close> is the type of lexers. A call of \<open>get_lexer_by_name\<close>
  takes the lexer name and the keyword arguments, \<open>None\<close> when the call passes
  none.

  \<open>pygments.lex\<close> returns a lazy token stream: the call itself lexes nothing.
  A stream is the list of the tokens it yields when it is iterated, and the
  exception that ends the iteration, \<open>None\<close> when the stream is exhausted
  normally. \<open>Inl\<close> is an exception raised by the call itself.
\<close>

type_synonym 't stream = "('t \<times> string) list \<times> exn option"

record ('t, 'l) module_globals =
  pygments_lex :: "(string \<Rightarrow> 'l \<Rightarrow> exn + 't stream) option"
  get_lexer_by_name :: "(string \<Rightarrow> options option \<Rightarrow> exn + 'l) option"
  get_ttype_class :: "('t \<Rightarrow> string) option"

definition call_get_lexer_by_name ::
  "('t, 'l) module_globals \<Rightarrow> string \<Rightarrow> options option \<Rightarrow> exn + 'l" where
  "call_get_lexer_by_name g name kwargs =
     (case get_lexer_by_name g of None \<Rightarrow> Inl NameError | Some f \<Rightarrow> f name kwargs)"

definition call_pygments_lex ::
  "('t, 'l) module_globals \<Rightarrow> string \<Rightarrow> 'l \<Rightarrow> exn + 't stream" where
  "call_pygments_lex g code lexer =
     (case pygments_lex g of None \<Rightarrow> Inl NameError | Some f \<Rightarrow> f code lexer)"

text \<open>
  A result together with the messages written to \<open>log\<close>, each with its level.
\<close>

type_synonym 'a logged = "(string \<times> string) list \<times> (exn + 'a)"

text \<open>
  Lines 87-98. Only \<open>ValueError\<close> is handled by the \<open>except\<close> clause of line 94.
\<close>

definition lex_tokens ::
  "('t, 'l) module_globals \<Rightarrow> string \<Rightarrow> string \<Rightarrow> options \<Rightarrow> 't stream logged" where
  "lex_tokens g code language custom_args =
     (case (if language \<noteq> [] \<and> lower language \<noteq> ''none''
            then call_get_lexer_by_name g (lower language) (Some custom_args)
            else call_get_lexer_by_name g ''text'' (Some custom_args)) of
        Inr lexer \<Rightarrow> ([], call_pygments_lex g code lexer)
      | Inl e \<Rightarrow>
          if e = ValueError then
            ([(''info'', ''no pygments lexer for '' @ language @ '', using '' @ CHR 0x27 # ''text'' @ [CHR 0x27])],
             and_then (call_get_lexer_by_name g ''text'' None) (call_pygments_lex g code))
          else ([], Inl e))"

text \<open>
  Lines 122-123 over the tokens that \<open>join\<close> yields: each yield reads
  \<open>_get_ttype_class\<close>.
\<close>

definition yield_classes ::
  "('t, 'l) module_globals \<Rightarrow> ('t \<times> string) list \<Rightarrow> exn + (string \<times> string) list" where
  "yield_classes g merged =
     (case merged of
        [] \<Rightarrow> Inr []
      | _ # _ \<Rightarrow>
          (case get_ttype_class g of
             None \<Rightarrow> Inl NameError
           | Some f \<Rightarrow> Inr (map (\<lambda>(ttype, v). (f ttype, v)) merged)))"

text \<open>
  Lines 112-123. The \<open>try\<close> of lines 114-116 encloses only the call of \<open>lex\<close>,
  and only \<open>IOError\<close> is handled: an \<open>IOError\<close> raised by that call gives the
  fallback token. The stream is iterated by \<open>join\<close> in the loop of line 122,
  outside the \<open>try\<close>. When the stream ends with an exception, \<open>join\<close> has
  yielded its merged tokens except the one it is still accumulating, and the
  exception reaches the caller, an \<open>IOError\<close> as well. The result is the list
  of the pairs yielded when the iteration ends normally, or the exception that
  ends it.
\<close>

definition iter_tokens ::
  "('t, 'l) module_globals \<Rightarrow> string \<Rightarrow> string \<Rightarrow> options \<Rightarrow> (string \<times> string) list logged" where
  "iter_tokens g code language custom_args =
     (case lex_tokens g code language custom_args of
        (msgs, Inl e) \<Rightarrow>
          if e = IOError then
            (msgs @ [(''info'', ''Pygments lexer not found, using fallback'')],
             Inr [([], code)])
          else (msgs, Inl e)
      | (msgs, Inr (tokens, ended)) \<Rightarrow>
          (msgs,
           case ended of
             None \<Rightarrow> and_then (join tokens) (yield_classes g)
           | Some e \<Rightarrow>
               (case tokens of
                  [] \<Rightarrow> Inl e
                | first # rest \<Rightarrow>
                    and_then (yield_classes g (butlast (join_loop first rest)))
                      (\<lambda>yielded. Inl e))))"

section \<open>The document nodes and the rendering loop (lines 263-312)\<close>

text \<open>
  \<open>Text v\<close> is \<open>nodes.Text(v, v)\<close>, \<open>inline v classes\<close> is
  \<open>nodes.inline(v, v, classes=classes)\<close> and \<open>literal_block classes children\<close>
  is the \<open>nodes.literal_block\<close> of line 261 with the children added by \<open>+=\<close>.
\<close>

datatype node =
    Text string
  | inline string "string list"
  | literal_block "string list" "node list"

text \<open>Line 53.\<close>

definition unstyled_tokens :: "string list" where
  "unstyled_tokens = [[]]"

text \<open>
  Line 267: \<open>fstr = "\n%%%dd " % lnwidth\<close>. \<open>fstr lnwidth ln\<close> is \<open>fstr % ln\<close> and
  \<open>fstr_tail lnwidth ln\<close> is \<open>fstr[1:] % ln\<close>.
\<close>

definition fstr :: "nat \<Rightarrow> int \<Rightarrow> string" where
  "fstr lnwidth ln = CHR ''\<newline>'' # percent_d lnwidth ln @ '' ''"

definition fstr_tail :: "nat \<Rightarrow> int \<Rightarrow> string" where
  "fstr_tail lnwidth ln = percent_d lnwidth ln @ '' ''"

text \<open>
  Lines 290-301: the loop over \<open>list(zip(values, linenos))[1:]\<close>; the result is
  the list of the nodes it adds to \<open>code_block\<close>.
\<close>

fun render_pieces :: "int list \<Rightarrow> int \<Rightarrow> nat \<Rightarrow> (string \<times> int) list \<Rightarrow> node list" where
  "render_pieces hl total_lines lnwidth [] = []"
| "render_pieces hl total_lines lnwidth ((chunk, ln) # rest) =
     (if ln \<le> total_lines then
        (let linenumber_cls = (if hl \<noteq> [] \<and> ln \<notin> set hl then ''pygments-diml'' else ''linenumber'');
             c = (if hl \<noteq> [] \<and> ln \<notin> set hl then ''pygments-diml'' else [])
         in [inline (fstr lnwidth ln) [linenumber_cls], inline chunk [c]])
      else [])
     @ render_pieces hl total_lines lnwidth rest"

text \<open>
  Lines 277-312: the body of the loop over the classified tokens. The state is
  \<open>(lineno, children of code_block)\<close>.
\<close>

definition render_token ::
  "bool \<Rightarrow> int list \<Rightarrow> int \<Rightarrow> nat \<Rightarrow> int \<times> node list \<Rightarrow> string \<times> string \<Rightarrow> int \<times> node list" where
  "render_token withln hl total_lines lnwidth st tok =
     (case st of (lineno, code_block) \<Rightarrow>
      (case tok of (cls0, v) \<Rightarrow>
       (let cls = (if hl \<noteq> [] \<and> lineno \<notin> set hl then ''diml'' else cls0) in
        if withln \<and> CHR ''\<newline>'' \<in> set v then
          (let values = split_nl v;
               c = (if cls \<noteq> [] then ''pygments-diml'' else []);
               code_block = code_block @ [inline (hd values) [c]];
               linenos = [lineno .. lineno + int (length values) - 1];
               code_block = code_block @ render_pieces hl total_lines lnwidth (tl (zip values linenos))
           in (lineno + int (length values) - 1, code_block))
        else if cls \<in> set unstyled_tokens then
          ((if CHR ''\<newline>'' \<in> set v then lineno + count_nl v else lineno),
           code_block @ [Text v])
        else
          ((if CHR ''\<newline>'' \<in> set v then lineno + count_nl v else lineno),
           code_block @ [inline v [''pygments-'' @ cls]]))))"

definition render_tokens ::
  "bool \<Rightarrow> int list \<Rightarrow> int \<Rightarrow> nat \<Rightarrow> int \<times> node list \<Rightarrow> (string \<times> string) list \<Rightarrow> int \<times> node list" where
  "render_tokens withln hl total_lines lnwidth st toks =
     foldl (render_token withln hl total_lines lnwidth) st toks"

section \<open>\<open>code_block_directive\<close> (lines 131-314)\<close>

text \<open>\<open>u'\n'.join(content)\<close> of line 236.\<close>

fun join_nl :: "string list \<Rightarrow> string" where
  "join_nl [] = []"
| "join_nl [l] = l"
| "join_nl (l # m # ls) = l @ CHR ''\<newline>'' # join_nl (m # ls)"

text \<open>
  Lines 143-236. \<open>fs path encoding\<close> is the result of
  \<open>codecs.open(path, 'r', encoding).read()\<close>. The \<open>except\<close> clause of line 150
  handles \<open>IOError\<close> and \<open>UnicodeError\<close>. Without \<open>include\<close>, \<open>line_offset\<close> is
  \<open>options.get('linenos_offset')\<close>, which is \<open>None\<close> when the option is absent.
\<close>

definition load_content ::
  "(string \<Rightarrow> string \<Rightarrow> exn + string) \<Rightarrow> options \<Rightarrow> string list \<Rightarrow> int \<Rightarrow>
   (string \<times> int option) logged" where
  "load_content fs opts content lineno =
     (case include_path opts of
        Some path \<Rightarrow>
          (let enc = (case encoding opts of Some e \<Rightarrow> e | None \<Rightarrow> ''utf-8'');
               with_offset = (\<lambda>r. and_then r (\<lambda>(c, off). Inr (c, Some off)))
           in case fs path enc of
                Inr text \<Rightarrow> ([], with_offset (extract_span opts (rstrip text)))
              | Inl e \<Rightarrow>
                  if e = IOError \<or> e = UnicodeError then
                    ([(''error'', ''Error reading file: '' @ CHR 0x22 # path @ CHR 0x22 # '' L '' @ str_int lineno)],
                     with_offset (extract_span opts []))
                  else ([], Inl e))
      | None \<Rightarrow> ([], Inr (join_nl content, linenos_offset opts)))"

text \<open>
  Lines 238-314, from the loaded \<open>content\<close> and \<open>line_offset\<close>. \<open>lnwidth\<close> and
  \<open>fstr\<close> are only bound when \<open>withln\<close> holds, and only used then. On line 263,
  \<open>1 + line_offset\<close> raises \<open>TypeError\<close> when \<open>line_offset\<close> is \<open>None\<close>.
\<close>

definition render_content ::
  "('t, 'l) module_globals \<Rightarrow> string list \<Rightarrow> options \<Rightarrow> string \<times> int option \<Rightarrow> node logged" where
  "render_content g arguments opts loaded =
     (case loaded of (content, line_offset) \<Rightarrow>
      (case (case tabsize opts of
               Some n \<Rightarrow> Inr n
             | None \<Rightarrow> (case tab_width opts of Some r \<Rightarrow> r | None \<Rightarrow> Inr 8)) of
         Inl e \<Rightarrow> ([], Inl e)
       | Inr tabw \<Rightarrow>
           (let content = replace_tabs content tabw;
                hl = (case hl_lines opts of Some l \<Rightarrow> l | None \<Rightarrow> []);
                hl = (if hl = [] then (case emphasize_lines opts of Some l \<Rightarrow> l | None \<Rightarrow> [])
                      else hl);
                withln = linenos opts;
                line_offset = (if linenos_offset opts = None then Some 0 else line_offset);
                language = (case arguments of [] \<Rightarrow> ''text'' | a # _ \<Rightarrow> a)
            in case line_offset of
                 None \<Rightarrow> ([], Inl TypeError)
               | Some line_offset \<Rightarrow>
                   (let lineno = 1 + line_offset;
                        total_lines = count_nl content + 1 + line_offset;
                        lnwidth = length (str_int total_lines);
                        linenumber_cls =
                          (if hl \<noteq> [] \<and> lineno \<notin> set hl then ''pygments-diml''
                           else ''linenumber'');
                        code_block =
                          (if withln then [inline (fstr_tail lnwidth lineno) [linenumber_cls]]
                           else [])
                    in case iter_tokens g content language opts of
                         (msgs, Inl e) \<Rightarrow> (msgs, Inl e)
                       | (msgs, Inr toks) \<Rightarrow>
                           (msgs,
                            Inr (literal_block [''code'', language]
                              (snd (render_tokens withln hl total_lines lnwidth
                                      (lineno, code_block) toks))))))))"

definition code_block_directive ::
  "('t, 'l) module_globals \<Rightarrow> (string \<Rightarrow> string \<Rightarrow> exn + string) \<Rightarrow>
   string list \<Rightarrow> options \<Rightarrow> string list \<Rightarrow> int \<Rightarrow> node logged" where
  "code_block_directive g fs arguments opts content lineno =
     (case load_content fs opts content lineno of
        (msgs, Inl e) \<Rightarrow> (msgs, Inl e)
      | (msgs, Inr loaded) \<Rightarrow>
          (case render_content g arguments opts loaded of
             (msgs2, r) \<Rightarrow> (msgs @ msgs2, r)))"

text \<open>The options dictionary with no key.\<close>

definition no_options :: options where
  "no_options =
     \<lparr>include_path = None, encoding = None, start_at = None, start_after = None,
      end_at = None, end_before = None, linenos = False, linenos_offset = None,
      tab_width = None, tabsize = None, hl_lines = None, emphasize_lines = None\<rparr>"

section \<open>\<open>join\<close>: merging the token stream\<close>

lemma join_loop_values:
  "concat (map snd (join_loop a ts)) = snd a @ concat (map snd ts)"
proof (induction ts arbitrary: a)
  case Nil
  show ?case by (cases a) simp
next
  case (Cons t ts)
  show ?case by (cases a; cases t) (simp add: Cons.IH)
qed

text \<open>
  The list yielded by the loop starts with a token of the type the loop started
  with, and running the loop again over it changes nothing: no two neighbours
  in it have the same type.
\<close>

lemma join_loop_fixed:
  "\<exists>x xs. join_loop a ts = x # xs \<and> fst x = fst a \<and> join_loop x xs = x # xs"
proof (induction ts arbitrary: a)
  case Nil
  show ?case by (cases a) simp
next
  case (Cons t ts)
  obtain lt lv where a: "a = (lt, lv)" by (cases a)
  obtain ty v where t: "t = (ty, v)" by (cases t)
  show ?case
  proof (cases "ty = lt")
    case True
    from Cons.IH [of "(lt, lv @ v)"] show ?thesis
      using a t True by simp
  next
    case False
    from Cons.IH [of "(ty, v)"] obtain x xs where
      r: "join_loop (ty, v) ts = x # xs" "fst x = ty" "join_loop x xs = x # xs"
      by auto
    obtain xt xv where x: "x = (xt, xv)" by (cases x)
    have "join_loop (lt, lv) (x # xs) = (lt, lv) # x # xs"
      using r x False by simp
    then show ?thesis using a t False r by simp
  qed
qed

lemma join_join_loop: "join (join_loop a ts) = Inr (join_loop a ts)"
proof -
  from join_loop_fixed [of a ts] obtain x xs where
    "join_loop a ts = x # xs" "join_loop x xs = x # xs" by blast
  then show ?thesis by (simp add: join_def)
qed

text \<open>
  C5. The claim: \<open>join\<close> applied to an empty token stream yields the empty
  sequence without failing, and applied to a one-token stream yields that token
  unchanged. The code passes a single token through, but on the empty stream
  the \<open>next(tokens)\<close> of line 103 raises \<open>StopIteration\<close> inside the generator,
  which reaches the caller as \<open>RuntimeError\<close>: nothing is yielded and the
  iteration fails.
\<close>

theorem join_empty_stream:
  "join ([] :: ('t \<times> string) list) = Inl RuntimeError \<and> join [tok] = Inr [tok]"
  by (cases tok) (simp add: join_def)

text \<open>
  C6. \<open>join\<close> is idempotent: merging the result of \<open>join ts\<close> again gives the
  result of \<open>join ts\<close>, for every finite token list \<open>ts\<close>. \<open>join\<close> returns a
  merged list exactly for the non-empty lists; on the empty list both sides are
  the same \<open>RuntimeError\<close>.
\<close>

theorem join_idempotent:
  "and_then (join ts) join = join ts \<and> ((\<exists>merged. join ts = Inr merged) \<longleftrightarrow> ts \<noteq> [])"
proof (cases ts)
  case Nil
  then show ?thesis by (simp add: join_def and_then_def)
next
  case (Cons t rest)
  then show ?thesis using join_join_loop [of t rest] by (simp add: join_def and_then_def)
qed

text \<open>
  C7. The values of the tokens that \<open>join\<close> yields, concatenated in order, are
  the values of the input tokens concatenated in order: merging drops, adds and
  reorders no character. \<open>join\<close> yields a result for every stream but the empty
  one, which holds no character.
\<close>

theorem join_keeps_values:
  "(case join ts of
      Inr merged \<Rightarrow> concat (map snd merged) = concat (map snd ts)
    | Inl e \<Rightarrow> ts = [])"
proof (cases ts)
  case Nil
  then show ?thesis by (simp add: join_def)
next
  case (Cons t rest)
  then show ?thesis by (simp add: join_def join_loop_values)
qed

section \<open>The line counter of the rendering loop\<close>

lemma split_nl_from_length:
  "int (length (split_nl_from cur s)) = count_nl s + 1"
  by (induction s arbitrary: cur) (simp_all add: count_nl_def)

lemma split_nl_length: "int (length (split_nl v)) = count_nl v + 1"
  by (simp add: split_nl_def split_nl_from_length)

lemma count_nl_append: "count_nl (a @ b) = count_nl a + count_nl b"
  by (simp add: count_nl_def)

lemma count_nl_zero: "CHR ''\<newline>'' \<notin> set v \<Longrightarrow> count_nl v = 0"
  by (induction v) (auto simp: count_nl_def)

lemma render_token_lineno:
  "fst (render_token withln hl total_lines lnwidth (lineno, code_block) (cls, v))
     = lineno + count_nl v"
  by (simp add: render_token_def Let_def split_nl_length count_nl_zero)

text \<open>
  C2. For every stream of classified tokens whose values together hold \<open>k\<close>
  newline characters, the rendering loop started with \<open>lineno = s\<close> ends with
  \<open>lineno = s + k\<close>, whichever of the three branches (split with line numbers,
  unstyled, styled) each token takes.
\<close>

theorem render_tokens_lineno:
  "fst (render_tokens withln hl total_lines lnwidth (s, code_block) toks)
     = s + count_nl (concat (map snd toks))"
proof (induction toks arbitrary: s code_block)
  case Nil
  show ?case by (simp add: render_tokens_def count_nl_def)
next
  case (Cons tok toks)
  obtain cls v where tok: "tok = (cls, v)" by (cases tok)
  obtain s' cb' where
    step: "render_token withln hl total_lines lnwidth (s, code_block) (cls, v) = (s', cb')"
    by (cases "render_token withln hl total_lines lnwidth (s, code_block) (cls, v)")
  have "s' = s + count_nl v"
    using render_token_lineno [of withln hl total_lines lnwidth s code_block cls v] step by simp
  moreover have "fst (render_tokens withln hl total_lines lnwidth (s', cb') toks)
      = s' + count_nl (concat (map snd toks))"
    by (rule Cons.IH)
  ultimately show ?case
    using tok step by (simp add: render_tokens_def count_nl_append)
qed

section \<open>The fallback of \<open>__iter__\<close>\<close>

text \<open>
  C3. The claim: when no tokenizer backend is present at all, the classified
  stream is the single pair \<open>('', code)\<close>, an informational message is logged,
  and no exception reaches the caller. The code: when the import of lines 37-42
  has failed, none of the three names is bound; \<open>lex\<close> reads
  \<open>get_lexer_by_name\<close> and raises \<open>NameError\<close>, which neither the
  \<open>except ValueError\<close> of line 94 nor the \<open>except IOError\<close> of line 116 handles.
  Nothing is yielded, nothing is logged, and \<open>NameError\<close> reaches the caller.
\<close>

theorem iter_tokens_no_backend:
  "iter_tokens \<lparr>pygments_lex = None, get_lexer_by_name = None, get_ttype_class = None\<rparr>
     code language custom_args = ([], Inl NameError)"
  by (simp add: iter_tokens_def lex_tokens_def call_get_lexer_by_name_def)

section \<open>Extraction of the included text\<close>

text \<open>
  C1. The claim: with \<open>start-at = A\<close> and \<open>end-at = B\<close>, each occurring once and
  \<open>A\<close> before \<open>B\<close>, the extracted text begins at the first character of \<open>A\<close>'s
  line and ends with the last character of \<open>B\<close>, and \<open>line_offset\<close> is the
  number of lines before \<open>A\<close>'s line. The code: the loop of lines 176-184 stops
  on the line break before \<open>A\<close>'s line, so the extracted text begins with that
  line break, not with the first character of the line (the comment of line 174
  says "to the beginning of the line"); and line 188 counts the lines of
  \<open>content[:after_index]\<close> after line 187 has already narrowed \<open>content\<close>, so the
  offset is taken from the wrong text (the \<open>start-after\<close> branch, lines 208-209,
  has the two statements in the other order). On the claim's own example the
  text is \<open>"\ndef foo():\n    pass\n"\<close>; with three lines before \<open>A\<close>'s line the
  offset is 1, not 3.
\<close>

theorem start_at_span_and_offset:
  "extract_span (no_options\<lparr>start_at := Some ''def foo''\<rparr>)
     ''x = 1\<newline>def foo():\<newline>    pass\<newline>''
     = Inr (''\<newline>def foo():\<newline>    pass\<newline>'', 1)
   \<and> extract_span (no_options\<lparr>start_at := Some ''def foo'', end_at := Some ''end''\<rparr>)
     ''a\<newline>b\<newline>c\<newline>def foo\<newline>end''
     = Inr (''\<newline>def foo\<newline>end'', 1)"
  by code_simp

text \<open>\<open>str_find\<close> is negative exactly when the needle does not occur in the text.\<close>

lemma str_find_lower: "- 1 \<le> str_find s sub"
  by (induction s) (simp_all add: Let_def)

lemma str_find_absent: "str_find s sub < 0 \<longleftrightarrow> \<not> sublist sub s"
proof (induction s)
  case Nil
  show ?case by simp
next
  case (Cons c cs)
  show ?case
  proof (cases "prefix sub (c # cs)")
    case True
    then show ?thesis by (auto simp: sublist_Cons_right)
  next
    case False
    then show ?thesis using Cons.IH str_find_lower [of cs sub]
      by (auto simp: Let_def sublist_Cons_right)
  qed
qed

lemma apply_start_at_absent:
  "start_at opts = Some A \<Longrightarrow> \<not> sublist A content \<Longrightarrow>
   apply_start_at opts (content, off) = Inl (Severe ''start-at'' A)"
  using str_find_absent [of content A]
  by (auto simp: apply_start_at_def Let_def)

lemma apply_start_after_absent:
  "start_after opts = Some A \<Longrightarrow> \<not> sublist A content \<Longrightarrow>
   apply_start_after opts (content, off) = Inl (Severe ''start-after'' A)"
  using str_find_absent [of content A]
  by (auto simp: apply_start_after_def Let_def)

lemma apply_end_at_absent:
  "end_at opts = Some B \<Longrightarrow> \<not> sublist B content \<Longrightarrow>
   apply_end_at opts (content, off) = Inl (Severe ''end-at'' B)"
  using str_find_absent [of content B]
  by (auto simp: apply_end_at_def Let_def)

lemma apply_end_before_absent:
  "end_before opts = Some B \<Longrightarrow> \<not> sublist B content \<Longrightarrow>
   apply_end_before opts (content, off) = Inl (Severe ''end-before'' B)"
  using str_find_absent [of content B]
  by (auto simp: apply_end_before_def Let_def)

text \<open>
  C4, as the claim states it, fails on an empty text: the guard \<open>if content:\<close> of
  line 154 skips all four anchors, so an anchor that does not occur in the empty
  text raises nothing and the empty text is returned.
\<close>

theorem empty_content_skips_anchors:
  "start_at (no_options\<lparr>start_at := Some ''def foo''\<rparr>) = Some ''def foo''
   \<and> \<not> sublist ''def foo'' []
   \<and> extract_span (no_options\<lparr>start_at := Some ''def foo''\<rparr>) [] = Inr ([], 0)"
  by (simp add: extract_span_def no_options_def)

text \<open>
  C4, amended. When the loaded text is not empty, an anchor option whose string
  does not occur in the working text (the loaded text for \<open>start-at\<close>; for each
  later option the text as the earlier steps have narrowed it) makes the
  extraction fail with the severe message that names this option; no text is
  returned.
\<close>

theorem absent_anchor_is_severe:
  assumes "content \<noteq> []"
  shows
   "(\<forall>A. start_at opts = Some A \<and> \<not> sublist A content \<longrightarrow>
         extract_span opts content = Inl (Severe ''start-at'' A))
  \<and> (\<forall>A c1 l1. apply_start_at opts (content, 0) = Inr (c1, l1)
         \<and> start_after opts = Some A \<and> \<not> sublist A c1 \<longrightarrow>
         extract_span opts content = Inl (Severe ''start-after'' A))
  \<and> (\<forall>B s1 c2 l2. apply_start_at opts (content, 0) = Inr s1
         \<and> apply_start_after opts s1 = Inr (c2, l2)
         \<and> end_at opts = Some B \<and> \<not> sublist B c2 \<longrightarrow>
         extract_span opts content = Inl (Severe ''end-at'' B))
  \<and> (\<forall>B s1 s2 c3 l3. apply_start_at opts (content, 0) = Inr s1
         \<and> apply_start_after opts s1 = Inr s2
         \<and> apply_end_at opts s2 = Inr (c3, l3)
         \<and> end_before opts = Some B \<and> \<not> sublist B c3 \<longrightarrow>
         extract_span opts content = Inl (Severe ''end-before'' B))"
  using assms
  by (simp add: extract_span_def and_then_def apply_start_at_absent apply_start_after_absent
      apply_end_at_absent apply_end_before_absent)

theorem absent_anchor_is_severe_witness:
  "extract_span (no_options\<lparr>start_at := Some ''zz''\<rparr>) ''a\<newline>b\<newline>c''
     = Inl (Severe ''start-at'' ''zz'')
   \<and> extract_span (no_options\<lparr>start_at := Some ''b'', start_after := Some ''a''\<rparr>)
       ''a\<newline>b\<newline>c'' = Inl (Severe ''start-after'' ''a'')
   \<and> extract_span (no_options\<lparr>start_after := Some ''b'', end_at := Some ''a''\<rparr>)
       ''a\<newline>b\<newline>c'' = Inl (Severe ''end-at'' ''a'')
   \<and> extract_span (no_options\<lparr>end_at := Some ''b'', end_before := Some ''c''\<rparr>)
       ''a\<newline>b\<newline>c'' = Inl (Severe ''end-before'' ''c'')"
proof -
  let ?C = "''a\<newline>b\<newline>c''"
  have ne: "?C \<noteq> []" by simp
  let ?o1 = "no_options\<lparr>start_at := Some ''zz''\<rparr>"
  have "start_at ?o1 = Some ''zz'' \<and> \<not> sublist ''zz'' ?C" by code_simp
  with absent_anchor_is_severe [OF ne, of ?o1]
  have 1: "extract_span ?o1 ?C = Inl (Severe ''start-at'' ''zz'')" by blast
  let ?o2 = "no_options\<lparr>start_at := Some ''b'', start_after := Some ''a''\<rparr>"
  have "apply_start_at ?o2 (?C, 0) = Inr (''\<newline>b\<newline>c'', 0)
      \<and> start_after ?o2 = Some ''a'' \<and> \<not> sublist ''a'' ''\<newline>b\<newline>c''" by code_simp
  with absent_anchor_is_severe [OF ne, of ?o2]
  have 2: "extract_span ?o2 ?C = Inl (Severe ''start-after'' ''a'')" by blast
  let ?o3 = "no_options\<lparr>start_after := Some ''b'', end_at := Some ''a''\<rparr>"
  have "apply_start_at ?o3 (?C, 0) = Inr (?C, 0)
      \<and> apply_start_after ?o3 (?C, 0) = Inr (''\<newline>c'', 2)
      \<and> end_at ?o3 = Some ''a'' \<and> \<not> sublist ''a'' ''\<newline>c''" by code_simp
  with absent_anchor_is_severe [OF ne, of ?o3]
  have 3: "extract_span ?o3 ?C = Inl (Severe ''end-at'' ''a'')" by blast
  let ?o4 = "no_options\<lparr>end_at := Some ''b'', end_before := Some ''c''\<rparr>"
  have "apply_start_at ?o4 (?C, 0) = Inr (?C, 0)
      \<and> apply_start_after ?o4 (?C, 0) = Inr (?C, 0)
      \<and> apply_end_at ?o4 (?C, 0) = Inr (''a\<newline>b'', 0)
      \<and> end_before ?o4 = Some ''c'' \<and> \<not> sublist ''c'' ''a\<newline>b''" by code_simp
  with absent_anchor_is_severe [OF ne, of ?o4]
  have 4: "extract_span ?o4 ?C = Inl (Severe ''end-before'' ''c'')" by blast
  from 1 2 3 4 show ?thesis by blast
qed

section \<open>Emphasis of the first piece of a split token\<close>

text \<open>
  C8. The claim: with \<open>hl_lines = [2]\<close> over three lines, every node of line 2 is
  emphasized (not dimmed) and every node of lines 1 and 3 is dimmed; in
  particular the first piece of a multi-line token that starts on line 2. The
  code: line 284 gives the first piece the class \<open>pygments-diml\<close> whenever the
  token's class is not empty, without looking at \<open>hl_lines\<close>; the later pieces
  (lines 293-296) do look at it. The comment token below starts on the
  highlighted line 2, and its first piece is dimmed.
\<close>

theorem first_piece_dimmed:
  "render_tokens True [2] 3 1 (1, [inline (fstr_tail 1 1) [''pygments-diml'']])
     [([], ''a\<newline>''), (''cm'', ''{- x\<newline>y -}'')]
   = (3, [inline ''1 '' [''pygments-diml''], inline ''a'' [''pygments-diml''],
          inline ''\<newline>2 '' [''linenumber''], inline [] [[]],
          inline ''{- x'' [''pygments-diml''],
          inline ''\<newline>3 '' [''pygments-diml''], inline ''y -}'' [''pygments-diml'']])"
  by code_simp

section \<open>Line-number markers and \<open>total_lines\<close>\<close>

text \<open>
  Formatting a line number is injective: \<open>str(n)\<close> determines \<open>n\<close>, its
  characters are digits after an optional sign, and the padding of \<open>%<w>d\<close>
  consists of blanks only.
\<close>

declare digits.simps [simp del]



































section \<open>Numbering without \<open>linenos_offset\<close>\<close>

text \<open>The loop only adds nodes after those that are there.\<close>

lemma render_token_extends:
  "\<exists>added. snd (render_token withln hl total_lines w (lineno, code_block) (cls, v))
     = code_block @ added"
  by (simp add: render_token_def Let_def)

lemma render_tokens_extends:
  "\<exists>added. snd (render_tokens withln hl total_lines w (lineno, code_block) toks)
     = code_block @ added"
proof (induction toks arbitrary: lineno code_block)
  case Nil
  show ?case by (simp add: render_tokens_def)
next
  case (Cons tok toks)
  obtain cls v where tok: "tok = (cls, v)" by (cases tok)
  obtain l' cb' where
    step: "render_token withln hl total_lines w (lineno, code_block) (cls, v) = (l', cb')"
    by (cases "render_token withln hl total_lines w (lineno, code_block) (cls, v)")
  from render_token_extends [of withln hl total_lines w lineno code_block cls v] step
  obtain a1 where a1: "cb' = code_block @ a1" by auto
  from Cons.IH [of l' cb'] obtain a2 where
    "snd (render_tokens withln hl total_lines w (l', cb') toks) = cb' @ a2" by blast
  with a1 tok step show ?case by (simp add: render_tokens_def)
qed

lemma render_content_first_number:
  assumes "linenos_offset opts = None" and "linenos opts"
      and "render_content g arguments opts loaded = (msgs, Inr (literal_block cls children))"
  shows "\<exists>lnwidth c rest. children = inline (fstr_tail lnwidth 1) [c] # rest"
proof -
  obtain content off where loaded: "loaded = (content, off)" by (cases loaded)
  from assms(3) loaded assms(1,2) obtain withln hl total_lines w c toks where
    "children = snd (render_tokens withln hl total_lines w (1, [inline (fstr_tail w 1) [c]]) toks)"
    by (auto simp: render_content_def Let_def split: sum.splits option.splits prod.splits if_splits)
  moreover from render_tokens_extends [of withln hl total_lines w 1 "[inline (fstr_tail w 1) [c]]" toks]
  obtain added where
    "snd (render_tokens withln hl total_lines w (1, [inline (fstr_tail w 1) [c]]) toks)
       = [inline (fstr_tail w 1) [c]] @ added" by blast
  ultimately have "children = inline (fstr_tail w 1) [c] # added" by simp
  then show ?thesis by blast
qed

text \<open>
  C10. When the option \<open>linenos_offset\<close> is absent, lines 252-253 set
  \<open>line_offset\<close> to 0 before the numbering: the rendering does not depend on
  the offset that the extraction computed, and with \<open>linenos\<close> the first node of
  the block is the marker of line 1, also when \<open>start-at\<close> or \<open>start-after\<close>
  skipped lines of the included file.
\<close>

theorem numbering_without_linenos_offset:
  assumes "linenos_offset opts = None"
  shows "render_content g arguments opts (text, off) = render_content g arguments opts (text, Some 0)
       \<and> (\<forall>msgs cls children.
            linenos opts \<and>
            code_block_directive g fs arguments opts content lineno
              = (msgs, Inr (literal_block cls children)) \<longrightarrow>
            (\<exists>lnwidth c rest. children = inline (fstr_tail lnwidth 1) [c] # rest))"
proof
  show "render_content g arguments opts (text, off) = render_content g arguments opts (text, Some 0)"
    using assms by (simp add: render_content_def)
next
  show "\<forall>msgs cls children.
            linenos opts \<and>
            code_block_directive g fs arguments opts content lineno
              = (msgs, Inr (literal_block cls children)) \<longrightarrow>
            (\<exists>lnwidth c rest. children = inline (fstr_tail lnwidth 1) [c] # rest)"
  proof (intro allI impI)
    fix msgs cls children
    assume h: "linenos opts \<and>
            code_block_directive g fs arguments opts content lineno
              = (msgs, Inr (literal_block cls children))"
    then obtain loaded msgs2 where
      "render_content g arguments opts loaded = (msgs2, Inr (literal_block cls children))"
      by (auto simp: code_block_directive_def split: prod.splits sum.splits)
    with assms h show "\<exists>lnwidth c rest. children = inline (fstr_tail lnwidth 1) [c] # rest"
      using render_content_first_number by blast
  qed
qed


text \<open>
  An included file whose first two lines are skipped by \<open>start-at\<close>: the
  numbering starts at 1.
\<close>

theorem numbering_without_linenos_offset_witness:
  "linenos_offset (no_options\<lparr>include_path := Some ''f.py'', start_at := Some ''foo'', linenos := True\<rparr>) = None
   \<and> code_block_directive
        \<lparr>pygments_lex = Some (\<lambda>code lexer. Inr ([((), code @ ''\<newline>'')], None)),
         get_lexer_by_name = Some (\<lambda>name kwargs. Inr ()),
         get_ttype_class = Some (\<lambda>ttype. [])\<rparr>
        (\<lambda>path enc. Inr ''a\<newline>b\<newline>foo\<newline>bar\<newline>'') []
        (no_options\<lparr>include_path := Some ''f.py'', start_at := Some ''foo'', linenos := True\<rparr>) [] 1
      = ([], Inr (literal_block [''code'', ''text'']
           [inline ''1 '' [''linenumber''], inline [] [[]],
            inline ''\<newline>2 '' [''linenumber''], inline ''foo'' [[]],
            inline ''\<newline>3 '' [''linenumber''], inline ''bar'' [[]]]))
   \<and> (\<exists>lnwidth c rest.
         [inline ''1 '' [''linenumber''], inline [] [[]],
          inline ''\<newline>2 '' [''linenumber''], inline ''foo'' [[]],
          inline ''\<newline>3 '' [''linenumber''], inline ''bar'' [[]]]
         = inline (fstr_tail lnwidth 1) [c] # rest)
   \<and> render_content
        \<lparr>pygments_lex = Some (\<lambda>code lexer. Inr ([((), code @ ''\<newline>'')], None)),
         get_lexer_by_name = Some (\<lambda>name kwargs. Inr ()),
         get_ttype_class = Some (\<lambda>ttype. [])\<rparr> []
        (no_options\<lparr>include_path := Some ''f.py'', start_at := Some ''foo'', linenos := True\<rparr>)
        (''\<newline>foo\<newline>bar'', Some 1)
      = render_content
        \<lparr>pygments_lex = Some (\<lambda>code lexer. Inr ([((), code @ ''\<newline>'')], None)),
         get_lexer_by_name = Some (\<lambda>name kwargs. Inr ()),
         get_ttype_class = Some (\<lambda>ttype. [])\<rparr> []
        (no_options\<lparr>include_path := Some ''f.py'', start_at := Some ''foo'', linenos := True\<rparr>)
        (''\<newline>foo\<newline>bar'', Some 0)"
proof -
  let ?g = "\<lparr>pygments_lex = Some (\<lambda>code lexer. Inr ([((), code @ ''\<newline>'')], None)),
         get_lexer_by_name = Some (\<lambda>name kwargs. Inr ()),
         get_ttype_class = Some (\<lambda>ttype. [])\<rparr> :: (unit, unit) module_globals"
  let ?fs = "\<lambda>path enc. Inr ''a\<newline>b\<newline>foo\<newline>bar\<newline>'' :: exn + string"
  let ?opts = "no_options\<lparr>include_path := Some ''f.py'', start_at := Some ''foo'', linenos := True\<rparr>"
  let ?children = "[inline ''1 '' [''linenumber''], inline [] [[]],
            inline ''\<newline>2 '' [''linenumber''], inline ''foo'' [[]],
            inline ''\<newline>3 '' [''linenumber''], inline ''bar'' [[]]]"
  have h: "linenos_offset ?opts = None" by (simp add: no_options_def)
  have l: "linenos ?opts" by simp
  have ev: "code_block_directive ?g ?fs [] ?opts [] 1
      = ([], Inr (literal_block [''code'', ''text''] ?children))"
    by code_simp
  from numbering_without_linenos_offset
    [OF h, of ?g "[]" "''\<newline>foo\<newline>bar''" "Some 1" ?fs "[]" 1]
  show ?thesis using h l ev by blast
qed

end
